theory Spec2Isabelle
  imports Main "HOL-Library.AList"
begin

section \<open>Values of the program\<close>

text \<open>
  The client of \<^verbatim>\<open>src/lib/iotransit-cp.js\<close> handles untyped JavaScript values: the
  options the host passes to the constructor, the result of \<^verbatim>\<open>JSON.parse\<close> on an inbound
  frame, and the fields of the client object itself. They are modelled by one datatype.
  \<^item> \<open>JNum\<close> carries the integer-valued numbers (ports, delays); \<open>NaN\<close>, \<open>-0\<close> and
    fractions are not represented.
  \<^item> \<open>JObj\<close> is a plain object: its own properties in insertion order. \<^verbatim>\<open>JSON.parse\<close>
    yields objects whose keys are distinct; a lookup takes the first binding of a key.
  \<^item> \<open>JConnection n\<close> is a reference to the \<^verbatim>\<open>WebSocketConnection\<close> object number \<open>n\<close> that
    the websocket library hands to the \<^verbatim>\<open>'connect'\<close> handler; \<open>JClient c\<close> is the
    \<^verbatim>\<open>WebSocketClient\<close> object made by \<^verbatim>\<open>connect()\<close>, with the value \<open>c\<close> of its
    \<^verbatim>\<open>connection\<close> property. The code reaches the client object only through
    \<^verbatim>\<open>this.cp\<close>, so it is kept by value there. Neither occurs in parsed JSON.
\<close>

datatype jsval =
    JUndefined
  | JNull
  | JBool bool
  | JNum int
  | JStr string
  | JArr "jsval list"
  | JObj "(string \<times> jsval) list"
  | JConnection nat
  | JClient jsval

text \<open>What a \<^verbatim>\<open>throw\<close> carries: \<^verbatim>\<open>new Error(msg)\<close> of the constructor, or the
  \<^verbatim>\<open>TypeError\<close> the language raises on reading a property of \<^verbatim>\<open>undefined\<close>/\<^verbatim>\<open>null\<close>
  and on calling a value that is not a function; \<open>SyntaxError\<close> is what \<^verbatim>\<open>JSON.parse\<close>
  raises; \<open>UnhandledError\<close> is the error \<^verbatim>\<open>EventEmitter.prototype.emit\<close> throws when it is
  asked to emit \<^verbatim>\<open>'error'\<close> and nobody listens for it.\<close>

datatype js_error = Error string | TypeError | SyntaxError | UnhandledError

text \<open>Sequencing of an expression that may throw.\<close>

definition bind_e :: "js_error + 'a \<Rightarrow> ('a \<Rightarrow> js_error + 'b) \<Rightarrow> js_error + 'b" where
  "bind_e r f = (case r of Inl e \<Rightarrow> Inl e | Inr x \<Rightarrow> f x)"

text \<open>\<^verbatim>\<open>if (v)\<close>, \<^verbatim>\<open>v || d\<close>, \<^verbatim>\<open>v ? a : b\<close>: the falsy values are \<^verbatim>\<open>undefined\<close>,
  \<^verbatim>\<open>null\<close>, \<^verbatim>\<open>false\<close>, \<^verbatim>\<open>0\<close> and the empty string; every object is truthy.\<close>

fun truthy :: "jsval \<Rightarrow> bool" where
  "truthy JUndefined = False"
| "truthy JNull = False"
| "truthy (JBool b) = b"
| "truthy (JNum n) = (n \<noteq> 0)"
| "truthy (JStr s) = (s \<noteq> [])"
| "truthy (JArr xs) = True"
| "truthy (JObj kvs) = True"
| "truthy (JConnection n) = True"
| "truthy (JClient c) = True"

text \<open>\<^verbatim>\<open>typeof v === 'object'\<close> (\<^verbatim>\<open>typeof null\<close> is \<^verbatim>\<open>'object'\<close> too).\<close>

fun typeof_object :: "jsval \<Rightarrow> bool" where
  "typeof_object JNull = True"
| "typeof_object (JArr xs) = True"
| "typeof_object (JObj kvs) = True"
| "typeof_object (JConnection n) = True"
| "typeof_object (JClient c) = True"
| "typeof_object v = False"

text \<open>\<^verbatim>\<open>a === b\<close> where one side comes out of \<^verbatim>\<open>JSON.parse\<close>: primitives are compared by
  value; a freshly parsed object or array is identical to no other value.\<close>

fun strict_eq :: "jsval \<Rightarrow> jsval \<Rightarrow> bool" where
  "strict_eq JUndefined JUndefined = True"
| "strict_eq JNull JNull = True"
| "strict_eq (JBool a) (JBool b) = (a = b)"
| "strict_eq (JNum a) (JNum b) = (a = b)"
| "strict_eq (JStr a) (JStr b) = (a = b)"
| "strict_eq (JConnection a) (JConnection b) = (a = b)"
| "strict_eq a b = False"

definition obj_has :: "(string \<times> jsval) list \<Rightarrow> string \<Rightarrow> bool" where
  "obj_has kvs k = (k \<in> fst ` set kvs)"

definition obj_get :: "(string \<times> jsval) list \<Rightarrow> string \<Rightarrow> jsval" where
  "obj_get kvs k = (case map_of kvs k of Some v \<Rightarrow> v | None \<Rightarrow> JUndefined)"

text \<open>\<^verbatim>\<open>v.hasOwnProperty(k)\<close>. On a plain object the method is inherited from
  \<^verbatim>\<open>Object.prototype\<close> unless the object has an own property of that name, whose value is
  data and cannot be called. The code asks arrays and library objects only for option names
  (\<^verbatim>\<open>'appletId'\<close>), which they do not have.\<close>

fun has_own :: "jsval \<Rightarrow> string \<Rightarrow> js_error + bool" where
  "has_own JUndefined k = Inl TypeError"
| "has_own JNull k = Inl TypeError"
| "has_own (JObj kvs) k =
     (if obj_has kvs ''hasOwnProperty'' then Inl TypeError else Inr (obj_has kvs k))"
| "has_own v k = Inr False"

text \<open>\<^verbatim>\<open>o[k] = v\<close> on a plain object: an existing property keeps its place, a new one goes
  last. The constructor writes option names only, and only to the plain object it has just
  checked with \<^verbatim>\<open>hasOwnProperty\<close>.\<close>

fun put_prop :: "jsval \<Rightarrow> string \<Rightarrow> jsval \<Rightarrow> jsval" where
  "put_prop (JObj kvs) k v = JObj (AList.update k v kvs)"
| "put_prop u k v = u"

section \<open>The state of a client\<close>

text \<open>
  \<open>own\<close> holds the own data properties of the \<^verbatim>\<open>IoTransit\<close> instance (\<^verbatim>\<open>this\<close>):
  \<^verbatim>\<open>options\<close>, \<^verbatim>\<open>controlPlaneConnected\<close>, \<^verbatim>\<open>cp\<close>, \<dots> and whatever a \<^verbatim>\<open>setconfig\<close>
  command adds. The private fields of the inherited \<^verbatim>\<open>EventEmitter\<close> are not listed.
  \<open>proto\<close> is the prototype of the instance: the class, or the value a \<^verbatim>\<open>setconfig\<close> of
  the key \<^verbatim>\<open>__proto__\<close> has put in its place.

  Everything the code does to its environment is a log:
  \<^item> \<open>emitted\<close>: the events emitted on the client, which is the event surface the host
    listens on: the calls of \<^verbatim>\<open>emit(name, arg)\<close> that the emitter took;
  \<^item> \<open>conn_emitted\<close>: the calls of \<^verbatim>\<open>emit\<close> on a connection object;
  \<^item> \<open>calls\<close>: the calls into the websocket library;
  \<^item> \<open>timers\<close>: the pending \<^verbatim>\<open>setTimeout\<close> callbacks. The only callback in the code is
    the reconnect closure, which captures \<^verbatim>\<open>webSocketPrefix\<close>;
  \<^item> \<open>console\<close>: the byte counts printed for binary frames.
  \<open>live\<close> lists the connections whose \<^verbatim>\<open>connected\<close> property is true; the library
  maintains it, the code only reads it. \<open>error_listener\<close> tells whether the host has
  registered a listener for the event \<^verbatim>\<open>'error'\<close> on the client; the host decides it, and
  \<^verbatim>\<open>emit\<close> depends on it.
\<close>

datatype proto = ClassProto | DataProto jsval

record timer =
  delay :: jsval
  captured_prefix :: string

datatype transport_call =
    TConnect string jsval jsval
  | TSendUTF nat jsval
  | TSend nat jsval
  | TDrop nat

record world =
  own :: "(string \<times> jsval) list"
  proto :: proto
  emitted :: "(jsval \<times> jsval) list"
  conn_emitted :: "(nat \<times> jsval \<times> jsval) list"
  calls :: "transport_call list"
  timers :: "timer list"
  console :: "nat list"
  live :: "nat list"
  error_listener :: bool

text \<open>A method either returns, or throws with the state as it was at the throw.\<close>

datatype outcome = Done world | Threw js_error world

fun world_of :: "outcome \<Rightarrow> world" where
  "world_of (Done w) = w"
| "world_of (Threw e w) = w"

definition attempt :: "js_error + 'a \<Rightarrow> world \<Rightarrow> ('a \<Rightarrow> outcome) \<Rightarrow> outcome" where
  "attempt r w f = (case r of Inl e \<Rightarrow> Threw e w | Inr x \<Rightarrow> f x)"

definition and_then :: "outcome \<Rightarrow> (world \<Rightarrow> outcome) \<Rightarrow> outcome" where
  "and_then r f = (case r of Done w \<Rightarrow> f w | Threw e w \<Rightarrow> Threw e w)"

text \<open>\<^verbatim>\<open>v.k\<close> for the property names the code reads (\<^verbatim>\<open>t\<close>, \<^verbatim>\<open>p\<close>, \<^verbatim>\<open>cmd\<close>,
  \<^verbatim>\<open>args\<close>, \<^verbatim>\<open>dto\<close>, the option names, \<^verbatim>\<open>connection\<close>, \<^verbatim>\<open>connected\<close>): none of them is
  inherited from \<^verbatim>\<open>Object.prototype\<close>, and strings, numbers, booleans and arrays have none
  of them. The one read with a computed name, \<^verbatim>\<open>rcvMsg.p[o]\<close> on line 136, asks a plain
  object for one of its own keys.\<close>

fun get :: "world \<Rightarrow> jsval \<Rightarrow> string \<Rightarrow> js_error + jsval" where
  "get w JUndefined k = Inl TypeError"
| "get w JNull k = Inl TypeError"
| "get w (JObj kvs) k = Inr (obj_get kvs k)"
| "get w (JConnection n) k =
     Inr (if k = ''connected'' then JBool (n \<in> set (live w)) else JUndefined)"
| "get w (JClient c) k = Inr (if k = ''connection'' then c else JUndefined)"
| "get w v k = Inr JUndefined"

section \<open>The constructor\<close>

definition AUTH_USER :: jsval where "AUTH_USER = JStr ''ext''"
definition AUTH_PASS :: jsval where "AUTH_PASS = JStr ''external''"
definition CONTROLPLANE_URI :: jsval where "CONTROLPLANE_URI = JStr ''127.0.0.1''"
definition CONTROLPLANE_PORT :: jsval where "CONTROLPLANE_PORT = JNum 10022"
definition CONTROLPLANE_SUBPROTOCOL :: jsval where
  "CONTROLPLANE_SUBPROTOCOL = JStr ''cp.iotransit.net''"
definition CONTROLPLANE_ORIGIN :: jsval where "CONTROLPLANE_ORIGIN = JStr ''control''"
definition AUTO_RECONNECT :: jsval where "AUTO_RECONNECT = JBool True"
definition RECONNECTION_TIMER :: jsval where "RECONNECTION_TIMER = JNum 5000"
definition SECURE_WEBSOCKET :: jsval where "SECURE_WEBSOCKET = JBool False"
definition EMIT_EVENTS_AS_CP :: jsval where "EMIT_EVENTS_AS_CP = JBool False"

text \<open>Lines 49--57: the value of \<^verbatim>\<open>this.options\<close> after the first \<^verbatim>\<open>if\<close> chain. An
  argument that is neither an object nor a string (a number, a boolean) takes no branch
  and leaves \<^verbatim>\<open>this.options\<close> undefined.\<close>

definition initial_options :: "jsval \<Rightarrow> js_error + jsval" where
  "initial_options options =
     (if options = JNull \<or> options = JUndefined
      then Inl (Error ''mandatory appletId not passed to constructor'')
      else if typeof_object options
      then bind_e (has_own options ''appletId'') (\<lambda>has.
             if has then Inr options
             else Inl (Error ''mandatory appletId not provided in config''))
      else (case options of
              JStr s \<Rightarrow> Inr (JObj [(''appletId'', options)])
            | _ \<Rightarrow> Inr JUndefined))"

text \<open>Lines 58--66: \<^verbatim>\<open>acceptTags\<close>. An \<^verbatim>\<open>accepts\<close> that is neither a string nor an array
  takes no branch.\<close>

definition is_string :: "jsval \<Rightarrow> bool" where
  "is_string v = (case v of JStr s \<Rightarrow> True | _ \<Rightarrow> False)"

definition is_array :: "jsval \<Rightarrow> bool" where
  "is_array v = (case v of JArr xs \<Rightarrow> True | _ \<Rightarrow> False)"

definition normalize_accepts :: "jsval \<Rightarrow> js_error + jsval" where
  "normalize_accepts opts =
     bind_e (has_own opts ''accepts'') (\<lambda>has.
       if \<not> has then
         (case opts of
            JObj kvs \<Rightarrow> Inr (put_prop opts ''acceptTags'' (JArr [obj_get kvs ''appletId'']))
          | _ \<Rightarrow> Inr opts)
       else
         (case opts of
            JObj kvs \<Rightarrow>
              (let accepts = obj_get kvs ''accepts'' in
               if \<not> is_array accepts \<and> is_string accepts
               then Inr (put_prop opts ''acceptTags'' (JArr [accepts]))
               else if is_array accepts
               then Inr (put_prop opts ''acceptTags'' accepts)
               else Inr opts)
          | _ \<Rightarrow> Inr opts))"

text \<open>Lines 67--72 and 74: \<^verbatim>\<open>o.k = o && o.k || d\<close>; lines 73, 75, 76:
  \<^verbatim>\<open>o.k = o && o.hasOwnProperty(k) ? o.k : d\<close>. Here \<^verbatim>\<open>o\<close> is \<^verbatim>\<open>this.options\<close>, which
  is an object at this point and so truthy.\<close>

definition or_default :: "string \<Rightarrow> jsval \<Rightarrow> jsval \<Rightarrow> js_error + jsval" where
  "or_default k d opts =
     (case opts of
        JObj kvs \<Rightarrow>
          Inr (put_prop opts k (if truthy (obj_get kvs k) then obj_get kvs k else d))
      | _ \<Rightarrow> Inl TypeError)"

definition own_or_default :: "string \<Rightarrow> jsval \<Rightarrow> jsval \<Rightarrow> js_error + jsval" where
  "own_or_default k d opts =
     (case opts of
        JObj kvs \<Rightarrow>
          bind_e (has_own opts k) (\<lambda>has.
            Inr (put_prop opts k (if has then obj_get kvs k else d)))
      | _ \<Rightarrow> Inl TypeError)"

definition apply_defaults :: "jsval \<Rightarrow> js_error + jsval" where
  "apply_defaults opts =
     bind_e (or_default ''authUser'' AUTH_USER opts) (\<lambda>o1.
     bind_e (or_default ''authPass'' AUTH_PASS o1) (\<lambda>o2.
     bind_e (or_default ''controlPlaneUri'' CONTROLPLANE_URI o2) (\<lambda>o3.
     bind_e (or_default ''controlPlanePort'' CONTROLPLANE_PORT o3) (\<lambda>o4.
     bind_e (or_default ''controlPlaneSubProtocol'' CONTROLPLANE_SUBPROTOCOL o4) (\<lambda>o5.
     bind_e (or_default ''controlPlaneOrigin'' CONTROLPLANE_ORIGIN o5) (\<lambda>o6.
     bind_e (own_or_default ''autoReconnect'' AUTO_RECONNECT o6) (\<lambda>o7.
     bind_e (or_default ''reconnectionTimer'' RECONNECTION_TIMER o7) (\<lambda>o8.
     bind_e (own_or_default ''secureWebSocket'' SECURE_WEBSOCKET o8) (\<lambda>o9.
     own_or_default ''emitEventsAsCP'' EMIT_EVENTS_AS_CP o9)))))))))"

text \<open>Lines 77--82: the fields the constructor gives the new instance, next to its
  options. The instance has made no call into the library, emitted nothing and armed no
  timer, and the host has had no chance yet to register a listener.\<close>

definition fresh_client :: "jsval \<Rightarrow> world" where
  "fresh_client opts =
     \<lparr> own = [(''options'', opts),
              (''controlPlaneConnected'', JBool False),
              (''authDevice'', JStr ''''),
              (''authDomain'', JStr ''''),
              (''authenticated'', JBool False),
              (''sn'', JStr ''''),
              (''s2'', JStr '''')],
       proto = ClassProto,
       emitted = [],
       conn_emitted = [],
       calls = [],
       timers = [],
       console = [],
       live = [],
       error_listener = False \<rparr>"

text \<open>The whole constructor. A throw leaves no instance behind.\<close>

definition IoTransit_new :: "jsval \<Rightarrow> js_error + world" where
  "IoTransit_new options =
     bind_e (initial_options options) (\<lambda>o0.
     bind_e (normalize_accepts o0) (\<lambda>o1.
     bind_e (apply_defaults o1) (\<lambda>opts.
       Inr (fresh_client opts))))"

section \<open>Conversion to a string\<close>

text \<open>\<^verbatim>\<open>'ws://' + v\<close> and the argument of \<^verbatim>\<open>String.prototype.indexOf\<close> turn a value into
  a string. A plain object prints as \<^verbatim>\<open>[object Object]\<close>, unless an own data property
  named \<^verbatim>\<open>toString\<close> hides the inherited method: then there is no primitive value and the
  conversion throws. An array prints its elements separated by commas, \<^verbatim>\<open>undefined\<close> and
  \<^verbatim>\<open>null\<close> as nothing. Integers print in decimal (below \<open>10\<^sup>2\<^sup>1\<close>, as all ports and
  delays are).\<close>

definition digit_char :: "nat \<Rightarrow> char" where
  "digit_char d = ''0123456789'' ! d"

function show_nat :: "nat \<Rightarrow> string" where
  "show_nat n =
     (if n < 10 then [digit_char n] else show_nat (n div 10) @ [digit_char (n mod 10)])"
  by pat_completeness auto
termination
  by (relation "measure id") auto

declare show_nat.simps [simp del]

definition show_int :: "int \<Rightarrow> string" where
  "show_int i = (if i < 0 then CHR ''-'' # show_nat (nat (- i)) else show_nat (nat i))"

fun join_comma :: "(js_error + string) list \<Rightarrow> js_error + string" where
  "join_comma [] = Inr []"
| "join_comma [r] = r"
| "join_comma (r # rs) =
     bind_e r (\<lambda>s. bind_e (join_comma rs) (\<lambda>t. Inr (s @ '','' @ t)))"

fun to_string :: "jsval \<Rightarrow> js_error + string" where
  "to_string JUndefined = Inr ''undefined''"
| "to_string JNull = Inr ''null''"
| "to_string (JBool b) = Inr (if b then ''true'' else ''false'')"
| "to_string (JNum i) = Inr (show_int i)"
| "to_string (JStr s) = Inr s"
| "to_string (JArr xs) =
     join_comma (map (\<lambda>x. if x = JUndefined \<or> x = JNull then Inr [] else to_string x) xs)"
| "to_string (JObj kvs) =
     (if obj_has kvs ''toString'' then Inl TypeError else Inr ''[object Object]'')"
| "to_string (JConnection n) = Inr ''[object Object]''"
| "to_string (JClient c) = Inr ''[object Object]''"

text \<open>\<^verbatim>\<open>tags.indexOf(t) !== -1\<close>. On an array it is a search with \<^verbatim>\<open>===\<close>; on a string it
  is a substring search for the string form of \<^verbatim>\<open>t\<close>; no other value has a callable
  \<^verbatim>\<open>indexOf\<close>.\<close>

fun starts_with :: "string \<Rightarrow> string \<Rightarrow> bool" where
  "starts_with [] s = True"
| "starts_with (c # cs) [] = False"
| "starts_with (c # cs) (d # ds) = (c = d \<and> starts_with cs ds)"

fun occurs_in :: "string \<Rightarrow> string \<Rightarrow> bool" where
  "occurs_in u [] = (u = [])"
| "occurs_in u (d # ds) = (starts_with u (d # ds) \<or> occurs_in u ds)"

definition index_of :: "jsval \<Rightarrow> jsval \<Rightarrow> js_error + bool" where
  "index_of tags t =
     (case tags of
        JArr xs \<Rightarrow> Inr (list_ex (\<lambda>x. strict_eq x t) xs)
      | JStr s \<Rightarrow> bind_e (to_string t) (\<lambda>u. Inr (occurs_in u s))
      | _ \<Rightarrow> Inl TypeError)"

section \<open>Properties of \<^verbatim>\<open>this\<close>\<close>

text \<open>\<^verbatim>\<open>this.k\<close> for a data property: the own property, or else what the prototype gives.
  The class and its ancestors define methods only, so none of the names the code reads as
  data (\<^verbatim>\<open>options\<close>, \<^verbatim>\<open>cp\<close>, \<^verbatim>\<open>controlPlaneConnected\<close>) is found there.\<close>

definition this_get :: "world \<Rightarrow> string \<Rightarrow> jsval" where
  "this_get w k =
     (case map_of (own w) k of
        Some v \<Rightarrow> v
      | None \<Rightarrow>
          (case proto w of
             ClassProto \<Rightarrow> JUndefined
           | DataProto p \<Rightarrow> (case get w p k of Inr v \<Rightarrow> v | Inl e \<Rightarrow> JUndefined)))"

text \<open>\<^verbatim>\<open>this[k] = v\<close> (line 136, and the assignments to \<^verbatim>\<open>cp\<close> and
  \<^verbatim>\<open>controlPlaneConnected\<close>). An own property is overwritten and a missing one created,
  with one exception in the language: \<^verbatim>\<open>__proto__\<close> is an accessor of
  \<^verbatim>\<open>Object.prototype\<close>. As long as the instance has no own property of that name and the
  accessor is found along its prototype chain, the assignment calls the setter, which
  replaces the prototype when \<^verbatim>\<open>v\<close> is an object or \<^verbatim>\<open>null\<close> and does nothing
  otherwise.\<close>

definition setter_in_chain :: "world \<Rightarrow> bool" where
  "setter_in_chain w =
     (case proto w of
        ClassProto \<Rightarrow> True
      | DataProto p \<Rightarrow>
          (case p of
             JNull \<Rightarrow> False
           | JObj kvs \<Rightarrow> \<not> obj_has kvs ''__proto__''
           | _ \<Rightarrow> True))"

definition this_set :: "world \<Rightarrow> string \<Rightarrow> jsval \<Rightarrow> world" where
  "this_set w k v =
     (if k = ''__proto__'' \<and> \<not> obj_has (own w) k \<and> setter_in_chain w
      then (if typeof_object v then w\<lparr>proto := DataProto v\<rparr> else w)
      else w\<lparr>own := AList.update k v (own w)\<rparr>)"

text \<open>\<^verbatim>\<open>this.emit(name, arg)\<close>. The method is inherited from \<^verbatim>\<open>EventEmitter\<close>; an own
  property \<^verbatim>\<open>emit\<close> (its value is data) or a replaced prototype leaves nothing to call,
  and the call throws. The inherited method treats one event name apart: asked to emit
  \<^verbatim>\<open>'error'\<close> while no listener for it is registered, it throws instead of emitting (the
  argument is never an \<^verbatim>\<open>Error\<close> object here, so what it throws is its own unhandled-error
  error). Every other call is taken and logged; what the listeners of the host then do
  is the host's.\<close>

definition emit_callable :: "world \<Rightarrow> bool" where
  "emit_callable w = (\<not> obj_has (own w) ''emit'' \<and> proto w = ClassProto)"

definition emit :: "world \<Rightarrow> jsval \<Rightarrow> jsval \<Rightarrow> outcome" where
  "emit w name arg =
     (if \<not> emit_callable w then Threw TypeError w
      else if name = JStr ''error'' \<and> \<not> error_listener w then Threw UnhandledError w
      else Done (w\<lparr>emitted := emitted w @ [(name, arg)]\<rparr>))"

section \<open>\<^verbatim>\<open>connect()\<close> and the handlers it registers\<close>

text \<open>The URL \<^verbatim>\<open>webSocketPrefix + this.options.controlPlaneUri + ':' +
  this.options.controlPlanePort + '/'\<close>.\<close>

definition url :: "world \<Rightarrow> string \<Rightarrow> js_error + string" where
  "url w pre =
     bind_e (get w (this_get w ''options'') ''controlPlaneUri'') (\<lambda>uri.
     bind_e (to_string uri) (\<lambda>u.
     bind_e (get w (this_get w ''options'') ''controlPlanePort'') (\<lambda>port.
     bind_e (to_string port) (\<lambda>p.
       Inr (pre @ u @ '':'' @ p @ ''/'')))))"

text \<open>\<^verbatim>\<open>this.cp.connect(url, subprotocol, origin)\<close> (lines 90, 96, 110). Only the
  \<^verbatim>\<open>WebSocketClient\<close> has a \<^verbatim>\<open>connect\<close> to call; with any other value in \<^verbatim>\<open>this.cp\<close>
  the statement throws a \<^verbatim>\<open>TypeError\<close>, whichever of its steps fails first. What the
  library does with the call is not part of the model.\<close>

definition cp_connect :: "string \<Rightarrow> world \<Rightarrow> outcome" where
  "cp_connect pre w =
     (case this_get w ''cp'' of
        JClient c \<Rightarrow>
          attempt (url w pre) w (\<lambda>u.
          attempt (get w (this_get w ''options'') ''controlPlaneSubProtocol'') w (\<lambda>sub.
          attempt (get w (this_get w ''options'') ''controlPlaneOrigin'') w (\<lambda>origin.
            Done (w\<lparr>calls := calls w @ [TConnect u sub origin]\<rparr>))))
      | _ \<Rightarrow> Threw TypeError w)"

definition web_socket_prefix :: "world \<Rightarrow> js_error + string" where
  "web_socket_prefix w =
     bind_e (get w (this_get w ''options'') ''secureWebSocket'') (\<lambda>secure.
       Inr (if truthy secure then ''wss://'' else ''ws://''))"

text \<open>\<^verbatim>\<open>connect()\<close>: a new \<^verbatim>\<open>WebSocketClient\<close> (it has no \<^verbatim>\<open>connection\<close> yet) goes into
  \<^verbatim>\<open>this.cp\<close> and is asked to connect. Registering the handlers changes nothing until the
  library raises an event; each handler below is a function of the state, and takes the
  \<^verbatim>\<open>webSocketPrefix\<close> its closure captured.\<close>

definition connect :: "world \<Rightarrow> outcome" where
  "connect w =
     attempt (web_socket_prefix w) w (\<lambda>pre.
       cp_connect pre (this_set w ''cp'' (JClient JUndefined)))"

text \<open>Lines 94--98 and 108--112: arm the reconnect timer when \<^verbatim>\<open>autoReconnect\<close> is truthy.
  The handle \<^verbatim>\<open>setTimeout\<close> returns is dropped.\<close>

definition reconnect_later :: "string \<Rightarrow> world \<Rightarrow> outcome" where
  "reconnect_later pre w =
     attempt (get w (this_get w ''options'') ''autoReconnect'') w (\<lambda>auto.
       if truthy auto then
         attempt (get w (this_get w ''options'') ''reconnectionTimer'') w (\<lambda>d.
           Done (w\<lparr>timers := timers w @ [\<lparr>delay = d, captured_prefix = pre\<rparr>]\<rparr>))
       else Done w)"


text \<open>The \<^verbatim>\<open>'close'\<close> handler of a connection (lines 105--113).\<close>

definition on_close :: "string \<Rightarrow> world \<Rightarrow> outcome" where
  "on_close pre w =
     and_then
       (emit (this_set w ''controlPlaneConnected'' (JBool False))
          (JStr ''connectionClose'') (JStr ''control plane connection closed''))
       (reconnect_later pre)"

text \<open>The \<^verbatim>\<open>'error'\<close> handler of a connection (lines 102--104). It is written with
  \<^verbatim>\<open>function\<close>, not as an arrow function as its siblings are, so inside it \<^verbatim>\<open>this\<close> is the
  object the listener was called on: connection \<open>n\<close>. The connection is an event emitter
  of its own, and \<^verbatim>\<open>this.emit\<close> is its method.\<close>

definition on_error :: "nat \<Rightarrow> string \<Rightarrow> world \<Rightarrow> outcome" where
  "on_error n err w =
     Done (w\<lparr>conn_emitted := conn_emitted w @ [(n, JStr ''connectionError'', JStr err)]\<rparr>)"

text \<open>The authentication envelope of line 101; the log entry \<open>TSendUTF n v\<close> stands for
  \<^verbatim>\<open>connection.sendUTF(JSON.stringify(v))\<close>.\<close>

definition auth_envelope :: "world \<Rightarrow> js_error + jsval" where
  "auth_envelope w =
     bind_e (get w (this_get w ''options'') ''authUser'') (\<lambda>user.
     bind_e (get w (this_get w ''options'') ''authPass'') (\<lambda>pass.
     bind_e (get w (this_get w ''options'') ''acceptTags'') (\<lambda>accept.
       Inr (JObj [(''t'', JStr ''authapp''),
                  (''p'', JObj [(''user'', user), (''pass'', pass), (''accept'', accept)])]))))"

text \<open>\<^verbatim>\<open>this.cp.connection = connection\<close> (line 114), as the new value of \<^verbatim>\<open>this.cp\<close>.
  The class body is strict code: the assignment throws on a primitive as it does on
  \<^verbatim>\<open>undefined\<close>. A property put on an array or on a connection object is not tracked.\<close>

fun set_connection :: "jsval \<Rightarrow> jsval \<Rightarrow> js_error + jsval" where
  "set_connection (JClient old) c = Inr (JClient c)"
| "set_connection (JObj kvs) c = Inr (JObj (AList.update ''connection'' c kvs))"
| "set_connection (JArr xs) c = Inr (JArr xs)"
| "set_connection (JConnection m) c = Inr (JConnection m)"
| "set_connection v c = Inl TypeError"

text \<open>The \<^verbatim>\<open>'connect'\<close> handler (lines 100--152) up to the registration of the connection's
  handlers; \<open>n\<close> is the connection the library passes in.\<close>

definition on_connect :: "nat \<Rightarrow> world \<Rightarrow> outcome" where
  "on_connect n w =
     attempt (auth_envelope w) w (\<lambda>auth.
       let w1 = w\<lparr>calls := calls w @ [TSendUTF n auth]\<rparr> in
       attempt (set_connection (this_get w1 ''cp'') (JConnection n)) w1 (\<lambda>cp'.
         emit (this_set (this_set w1 ''cp'' cp') ''controlPlaneConnected'' (JBool True))
           (JStr ''connection'') (JStr ''control plane connected'')))"


section \<open>The message handler\<close>

text \<open>\<^verbatim>\<open>this.options.acceptTags.indexOf(rcvMsg.t) !== -1 || rcvMsg.t === 'all'\<close>
  (line 129).\<close>

definition tag_accepted :: "world \<Rightarrow> jsval \<Rightarrow> js_error + bool" where
  "tag_accepted w t =
     bind_e (get w (this_get w ''options'') ''acceptTags'') (\<lambda>tags.
     bind_e (index_of tags t) (\<lambda>found.
       Inr (found \<or> t = JStr ''all'')))"

text \<open>The \<^verbatim>\<open>for (var o in rcvMsg.p)\<close> loop of lines 134--138 over the keys of the
  payload. The payload is not changed by the loop, so \<^verbatim>\<open>hasOwnProperty\<close> answers or throws
  the same way in every round.\<close>

primrec setconfig :: "world \<Rightarrow> jsval \<Rightarrow> string list \<Rightarrow> outcome" where
  "setconfig w p [] = Done w"
| "setconfig w p (k # ks) =
     attempt (has_own p k) w (\<lambda>own_k.
       if own_k \<and> k \<noteq> ''cmd''
       then attempt (get w p k) w (\<lambda>v. setconfig (this_set w k v) p ks)
       else setconfig w p ks)"

text \<open>The enumerable keys of the payload. Only a plain object can have
  \<^verbatim>\<open>cmd === 'setconfig'\<close>, so the loop never runs over another kind of value.\<close>

fun own_keys :: "jsval \<Rightarrow> string list" where
  "own_keys (JObj kvs) = map fst kvs"
| "own_keys v = []"

text \<open>The inner \<^verbatim>\<open>switch (rcvMsg.p.cmd)\<close> (lines 130--142).\<close>

definition command_branch :: "world \<Rightarrow> jsval \<Rightarrow> jsval \<Rightarrow> outcome" where
  "command_branch w p cmd =
     (if cmd = JStr ''loglevels'' then Done w
      else if cmd = JStr ''setconfig'' then setconfig w p (own_keys p)
      else Done w)"

text \<open>Lines 120--146: what the handler does with the parsed message.\<close>

definition route :: "world \<Rightarrow> jsval \<Rightarrow> outcome" where
  "route w rcvMsg =
     attempt (get w rcvMsg ''t'') w (\<lambda>t.
       if t = JStr ''evt'' then
         attempt (get w (this_get w ''options'') ''emitEventsAsCP'') w (\<lambda>raw.
           if truthy raw then emit w (JStr ''cpMessage'') rcvMsg
           else
             attempt (get w rcvMsg ''p'') w (\<lambda>p.
             attempt (get w p ''cmd'') w (\<lambda>cmd.
             attempt (get w p ''args'') w (\<lambda>args.
             attempt (get w p ''dto'') w (\<lambda>dto.
               emit w cmd (JObj [(''args'', args), (''dto'', dto)]))))))
       else
         attempt (tag_accepted w t) w (\<lambda>accepted.
           if accepted then
             attempt (get w rcvMsg ''p'') w (\<lambda>p.
             attempt (get w p ''cmd'') w (\<lambda>cmd.
               and_then (command_branch w p cmd)
                 (\<lambda>w'. emit w' (JStr ''cpMessage'') rcvMsg)))
           else Done w))"

text \<open>A frame as the library delivers it: text, or binary data of some length. The whole
  \<^verbatim>\<open>'message'\<close> handler (lines 117--151), with \<^verbatim>\<open>JSON.parse\<close> as a parameter.\<close>

datatype frame = Utf8 string | Binary nat

definition on_message :: "(string \<Rightarrow> js_error + jsval) \<Rightarrow> frame \<Rightarrow> world \<Rightarrow> outcome" where
  "on_message JSON_parse message w =
     (case message of
        Utf8 utf8Data \<Rightarrow> attempt (JSON_parse utf8Data) w (\<lambda>rcvMsg. route w rcvMsg)
      | Binary len \<Rightarrow> Done (w\<lparr>console := console w @ [len]\<rparr>))"

section \<open>\<^verbatim>\<open>disconnect()\<close> and \<^verbatim>\<open>sendCP()\<close>\<close>

text \<open>\<^verbatim>\<open>this.cp.connection.drop()\<close> needs a connection object in \<^verbatim>\<open>this.cp.connection\<close>;
  anything else ends in a \<^verbatim>\<open>TypeError\<close>.\<close>

definition disconnect :: "world \<Rightarrow> outcome" where
  "disconnect w =
     (if truthy (this_get w ''controlPlaneConnected'') then
        attempt (get w (this_get w ''cp'') ''connection'') w (\<lambda>c.
          case c of
            JConnection n \<Rightarrow> Done (w\<lparr>calls := calls w @ [TDrop n]\<rparr>)
          | _ \<Rightarrow> Threw TypeError w)
      else Done w)"

text \<open>The log entry \<open>TSend n v\<close> stands for \<^verbatim>\<open>connection.send(JSON.stringify(v))\<close>.\<close>

definition sendCP :: "world \<Rightarrow> jsval \<Rightarrow> outcome" where
  "sendCP w sendMsg =
     attempt (get w (this_get w ''cp'') ''connection'') w (\<lambda>c.
       if c = JUndefined
       then emit w (JStr ''sendError'') (JStr ''control plane not connected'')
       else
         attempt (get w c ''connected'') w (\<lambda>connected.
           if truthy connected then
             (case c of
                JConnection n \<Rightarrow> Done (w\<lparr>calls := calls w @ [TSend n sendMsg]\<rparr>)
              | _ \<Rightarrow> Threw TypeError w)
           else emit w (JStr ''sendError'') (JStr ''control plane not connected'')))"

section \<open>Example clients and envelopes\<close>

text \<open>The client \<^verbatim>\<open>new IoTransit('A')\<close>: its options after the constructor, the client
  itself, the client after \<^verbatim>\<open>connect()\<close>, after the library has opened connection 1 and
  raised \<^verbatim>\<open>'connect'\<close>, and after that connection has been closed again.\<close>

definition example_options :: jsval where
  "example_options =
     JObj [(''appletId'', JStr ''A''), (''acceptTags'', JArr [JStr ''A'']),
           (''authUser'', JStr ''ext''), (''authPass'', JStr ''external''),
           (''controlPlaneUri'', JStr ''127.0.0.1''),
           (''controlPlanePort'', JNum 10022),
           (''controlPlaneSubProtocol'', JStr ''cp.iotransit.net''),
           (''controlPlaneOrigin'', JStr ''control''),
           (''autoReconnect'', JBool True),
           (''reconnectionTimer'', JNum 5000),
           (''secureWebSocket'', JBool False),
           (''emitEventsAsCP'', JBool False)]"

definition new_client :: world where
  "new_client = fresh_client example_options"

definition first_connect :: transport_call where
  "first_connect =
     TConnect ''ws://127.0.0.1:10022/'' (JStr ''cp.iotransit.net'') (JStr ''control'')"

definition connecting_client :: world where
  "connecting_client =
     new_client \<lparr> own := own new_client @ [(''cp'', JClient JUndefined)],
                  calls := [first_connect] \<rparr>"

definition connected_client :: world where
  "connected_client =
     \<lparr> own = [(''options'', example_options),
              (''controlPlaneConnected'', JBool True),
              (''authDevice'', JStr ''''),
              (''authDomain'', JStr ''''),
              (''authenticated'', JBool False),
              (''sn'', JStr ''''),
              (''s2'', JStr ''''),
              (''cp'', JClient (JConnection 1))],
       proto = ClassProto,
       emitted = [(JStr ''connection'', JStr ''control plane connected'')],
       conn_emitted = [],
       calls = [first_connect,
                TSendUTF 1 (JObj [(''t'', JStr ''authapp''),
                  (''p'', JObj [(''user'', JStr ''ext''), (''pass'', JStr ''external''),
                                (''accept'', JArr [JStr ''A''])])])],
       timers = [], console = [], live = [1], error_listener = False \<rparr>"

definition closed_client :: world where
  "closed_client =
     connected_client
       \<lparr> own := AList.update ''controlPlaneConnected'' (JBool False) (own connected_client),
         emitted := emitted connected_client @
                      [(JStr ''connectionClose'', JStr ''control plane connection closed'')],
         timers := [\<lparr>delay = JNum 5000, captured_prefix = ''ws://''\<rparr>],
         live := [] \<rparr>"


text \<open>The options of \<^verbatim>\<open>new IoTransit({appletId: 'A', accepts: []})\<close> and of
  \<^verbatim>\<open>new IoTransit({appletId: 'A', reconnectionTimer: 0})\<close> after the constructor.\<close>

definition empty_tags_options :: jsval where
  "empty_tags_options =
     JObj [(''appletId'', JStr ''A''), (''accepts'', JArr []), (''acceptTags'', JArr []),
           (''authUser'', JStr ''ext''), (''authPass'', JStr ''external''),
           (''controlPlaneUri'', JStr ''127.0.0.1''),
           (''controlPlanePort'', JNum 10022),
           (''controlPlaneSubProtocol'', JStr ''cp.iotransit.net''),
           (''controlPlaneOrigin'', JStr ''control''),
           (''autoReconnect'', JBool True),
           (''reconnectionTimer'', JNum 5000),
           (''secureWebSocket'', JBool False),
           (''emitEventsAsCP'', JBool False)]"

definition zero_delay_options :: jsval where
  "zero_delay_options =
     JObj [(''appletId'', JStr ''A''), (''reconnectionTimer'', JNum 5000),
           (''acceptTags'', JArr [JStr ''A'']),
           (''authUser'', JStr ''ext''), (''authPass'', JStr ''external''),
           (''controlPlaneUri'', JStr ''127.0.0.1''),
           (''controlPlanePort'', JNum 10022),
           (''controlPlaneSubProtocol'', JStr ''cp.iotransit.net''),
           (''controlPlaneOrigin'', JStr ''control''),
           (''autoReconnect'', JBool True),
           (''secureWebSocket'', JBool False),
           (''emitEventsAsCP'', JBool False)]"



definition envelope_patch :: "string \<Rightarrow> jsval \<Rightarrow> jsval" where
  "envelope_patch k v =
     JObj [(''t'', JStr ''all''), (''p'', JObj [(''cmd'', JStr ''setconfig''), (k, v)])]"



text \<open>The connected client after the envelope
  \<^verbatim>\<open>{"t":"all","p":{"cmd":"setconfig","emit":"x"}}\<close>: it has an own field \<^verbatim>\<open>emit\<close>.\<close>

definition shadowed_client :: world where
  "shadowed_client =
     connected_client\<lparr>own := own connected_client @ [(''emit'', JStr ''x'')]\<rparr>"

section \<open>Notions used in the statements\<close>



text \<open>Two option objects agree on \<^verbatim>\<open>acceptTags\<close>, and the second still inherits
  \<^verbatim>\<open>hasOwnProperty\<close>.\<close>

definition keeps_tags :: "(string \<times> jsval) list \<Rightarrow> (string \<times> jsval) list \<Rightarrow> bool" where
  "keeps_tags a b \<longleftrightarrow>
     obj_get b ''acceptTags'' = obj_get a ''acceptTags'' \<and> \<not> obj_has b ''hasOwnProperty''"

section \<open>Basic facts\<close>

lemmas constructor_defs =
  IoTransit_new_def initial_options_def normalize_accepts_def apply_defaults_def
  or_default_def own_or_default_def bind_e_def obj_has_def obj_get_def is_string_def
  is_array_def fresh_client_def Let_def
  AUTH_USER_def AUTH_PASS_def CONTROLPLANE_URI_def CONTROLPLANE_PORT_def
  CONTROLPLANE_SUBPROTOCOL_def CONTROLPLANE_ORIGIN_def AUTO_RECONNECT_def
  RECONNECTION_TIMER_def SECURE_WEBSOCKET_def EMIT_EVENTS_AS_CP_def

lemmas example_defs =
  connected_client_def new_client_def fresh_client_def example_options_def first_connect_def
  this_get_def this_set_def obj_has_def obj_get_def emit_def emit_callable_def
  attempt_def and_then_def bind_e_def

lemma obj_has_map_of: "obj_has kvs k \<longleftrightarrow> map_of kvs k \<noteq> None"
  by (simp add: obj_has_def map_of_eq_None_iff)

lemma obj_get_update: "obj_get (AList.update k v kvs) k' = (if k' = k then v else obj_get kvs k')"
  by (simp add: obj_get_def update_conv')

lemma obj_has_update: "obj_has (AList.update k v kvs) k' \<longleftrightarrow> k' = k \<or> obj_has kvs k'"
  by (auto simp add: obj_has_map_of update_conv')






text \<open>Only a plain object has a \<^verbatim>\<open>cmd\<close>, so the \<^verbatim>\<open>setconfig\<close> loop runs over the keys of
  a plain object.\<close>

lemma setconfig_payload_is_object:
  "get w p ''cmd'' = Inr (JStr ''setconfig'') \<Longrightarrow> \<exists>kvs. p = JObj kvs"
  by (cases p) (simp_all split: if_splits)

text \<open>A text frame that parses is handled by \<open>route\<close>; a binary frame only has its
  length printed.\<close>

lemma on_message_text:
  "JSON_parse utf8Data = Inr rcvMsg \<Longrightarrow>
     on_message JSON_parse (Utf8 utf8Data) w = route w rcvMsg"
  by (simp add: on_message_def attempt_def)

lemma on_message_binary:
  "on_message JSON_parse (Binary len) w = Done (w\<lparr>console := console w @ [len]\<rparr>)"
  by (simp add: on_message_def)

section \<open>The example clients are reached by the code\<close>

lemma new_client_constructed: "IoTransit_new (JStr ''A'') = Inr new_client"
  by (simp add: constructor_defs new_client_def example_options_def)

lemma show_port: "show_int 10022 = ''10022''"
  by (simp add: show_int_def show_nat.simps digit_char_def)

lemma connect_new_client: "connect new_client = Done connecting_client"
  by (simp add: connect_def web_socket_prefix_def cp_connect_def url_def attempt_def bind_e_def
      this_get_def this_set_def obj_has_def obj_get_def new_client_def fresh_client_def
      example_options_def connecting_client_def first_connect_def show_port)

lemma on_connect_connecting_client:
  "on_connect 1 (connecting_client\<lparr>live := [1]\<rparr>) = Done connected_client"
  by (simp add: on_connect_def auth_envelope_def attempt_def bind_e_def emit_def
      emit_callable_def this_get_def this_set_def obj_has_def obj_get_def new_client_def
      fresh_client_def example_options_def connecting_client_def connected_client_def)

lemma on_close_connected_client:
  "on_close ''ws://'' (connected_client\<lparr>live := []\<rparr>) = Done closed_client"
  by (simp add: on_close_def reconnect_later_def closed_client_def example_defs)

section \<open>The message router\<close>







text \<open>The client with the own field \<^verbatim>\<open>emit\<close> is what the \<^verbatim>\<open>setconfig\<close> of that field
  leaves behind.\<close>

lemma shadowed_client_reached:
  "route connected_client (envelope_patch ''emit'' (JStr ''x'')) =
     Threw TypeError shadowed_client"
  by (simp add: envelope_patch_def shadowed_client_def route_def command_branch_def
      tag_accepted_def index_of_def example_defs)




section \<open>Sending\<close>

text \<open>Once \<^verbatim>\<open>connect()\<close> has put a \<^verbatim>\<open>WebSocketClient\<close> into \<^verbatim>\<open>this.cp\<close>, \<^verbatim>\<open>sendCP\<close>
  forwards the message exactly once when the client's connection is live, and otherwise
  emits \<^verbatim>\<open>sendError\<close> and returns.\<close>

lemma sendCP_connected:
  assumes "this_get w ''cp'' = JClient (JConnection n)" and "n \<in> set (live w)"
  shows "sendCP w sendMsg = Done (w\<lparr>calls := calls w @ [TSend n sendMsg]\<rparr>)"
  using assms by (simp add: sendCP_def attempt_def)

lemma sendCP_not_connected:
  assumes "this_get w ''cp'' = JClient c"
    and "c = JUndefined \<or> (\<exists>n. c = JConnection n \<and> n \<notin> set (live w))"
    and "emit_callable w"
  shows "sendCP w sendMsg =
           Done (w\<lparr>emitted := emitted w @
                   [(JStr ''sendError'', JStr ''control plane not connected'')]\<rparr>)"
  using assms by (auto simp add: sendCP_def attempt_def emit_def)

text \<open>
  C4 at the input where the code departs from it: \<^verbatim>\<open>new IoTransit('A')\<close> followed at once
  by \<^verbatim>\<open>sendCP('hello')\<close>. Before \<^verbatim>\<open>connect()\<close> the field \<^verbatim>\<open>this.cp\<close> is undefined, so
  reading \<^verbatim>\<open>this.cp.connection\<close> throws a \<^verbatim>\<open>TypeError\<close>: the call does not complete
  normally and no \<^verbatim>\<open>sendError\<close> is emitted.
\<close>

theorem sendCP_before_connect_throws:
  "IoTransit_new (JStr ''A'') = Inr new_client
   \<and> sendCP new_client (JStr ''hello'') = Threw TypeError new_client
   \<and> emitted new_client = []"
  by (simp add: new_client_constructed)
     (simp add: sendCP_def attempt_def this_get_def new_client_def fresh_client_def)

section \<open>Reconnecting and disconnecting\<close>







text \<open>
  C6 at an input where the code departs from it: a transport error \<^verbatim>\<open>boom\<close> on
  connection 1 of the connected client. The handler runs with \<^verbatim>\<open>this\<close> bound to the
  connection, so \<^verbatim>\<open>connectionError\<close> is emitted on the connection object. The client's
  own event surface receives nothing; its state, the connected flag included, stays as it
  was.
\<close>

theorem connection_error_not_on_client:
  "on_error 1 ''boom'' connected_client =
     Done (connected_client\<lparr>conn_emitted := [(1, JStr ''connectionError'', JStr ''boom'')]\<rparr>)
   \<and> emitted (world_of (on_error 1 ''boom'' connected_client)) = emitted connected_client
   \<and> emitted connected_client = [(JStr ''connection'', JStr ''control plane connected'')]"
  by (simp add: on_error_def connected_client_def)

text \<open>
  C10. \<^verbatim>\<open>disconnect()\<close> on a client whose \<^verbatim>\<open>controlPlaneConnected\<close> is falsy returns
  normally and leaves the whole state as it was: nothing is emitted, nothing is written and
  the library is not called. A client fresh from the constructor is such a client,
  whatever its options.
\<close>

theorem disconnect_when_not_connected:
  "(\<not> truthy (this_get w ''controlPlaneConnected'') \<longrightarrow> disconnect w = Done w)
   \<and> (IoTransit_new options = Inr w \<longrightarrow> disconnect w = Done w)"
  by (auto simp add: disconnect_def IoTransit_new_def bind_e_def this_get_def fresh_client_def
      split: sum.splits)

theorem disconnect_when_not_connected_witness:
  "disconnect closed_client = Done closed_client \<and> disconnect new_client = Done new_client"
  using disconnect_when_not_connected [of closed_client "JStr ''A''"]
        disconnect_when_not_connected [of new_client "JStr ''A''"]
  by (simp add: new_client_constructed)
     (simp add: closed_client_def connected_client_def this_get_def)

section \<open>Construction\<close>

text \<open>
  C7. A constructor argument that supplies no \<^verbatim>\<open>appletId\<close> (\<^verbatim>\<open>null\<close>, \<^verbatim>\<open>undefined\<close>, an
  array, or a plain object without an own \<^verbatim>\<open>appletId\<close> key) makes the constructor throw.
  No client comes into being, so nothing has been sent to the network.
\<close>

theorem constructor_requires_appletId:
  assumes "options = JNull \<or> options = JUndefined \<or> (\<exists>xs. options = JArr xs) \<or>
           (\<exists>kvs. options = JObj kvs \<and> \<not> obj_has kvs ''appletId'')"
  shows "\<exists>e. IoTransit_new options = Inl e"
  using assms by (auto simp add: IoTransit_new_def initial_options_def bind_e_def)

theorem constructor_requires_appletId_witness:
  "\<exists>e. IoTransit_new (JObj [(''authUser'', JStr ''me'')]) = Inl e"
  by (rule constructor_requires_appletId) (simp add: obj_has_def)

text \<open>A client that the constructor does return has called nothing and emitted
  nothing.\<close>

lemma constructor_is_silent:
  "IoTransit_new options = Inr w \<Longrightarrow> calls w = [] \<and> emitted w = [] \<and> timers w = []"
  by (auto simp add: IoTransit_new_def bind_e_def fresh_client_def split: sum.splits)

text \<open>The defaults of lines 67--76 leave \<^verbatim>\<open>acceptTags\<close> alone.\<close>

lemma or_default_keeps:
  assumes "keeps_tags a b" and "k \<noteq> ''acceptTags''" and "k \<noteq> ''hasOwnProperty''"
  shows "\<exists>c. or_default k d (JObj b) = Inr (JObj c) \<and> keeps_tags a c"
  using assms by (simp add: or_default_def keeps_tags_def obj_get_update obj_has_update)

lemma own_or_default_keeps:
  assumes "keeps_tags a b" and "k \<noteq> ''acceptTags''" and "k \<noteq> ''hasOwnProperty''"
  shows "\<exists>c. own_or_default k d (JObj b) = Inr (JObj c) \<and> keeps_tags a c"
  using assms
  by (simp add: own_or_default_def bind_e_def keeps_tags_def obj_get_update obj_has_update)

lemma apply_defaults_keeps:
  assumes "\<not> obj_has a ''hasOwnProperty''"
  shows "\<exists>b. apply_defaults (JObj a) = Inr (JObj b) \<and>
             obj_get b ''acceptTags'' = obj_get a ''acceptTags''"
proof -
  have k0: "keeps_tags a a"
    using assms by (simp add: keeps_tags_def)
  obtain a1 where s1: "or_default ''authUser'' AUTH_USER (JObj a) = Inr (JObj a1)"
      and k1: "keeps_tags a a1"
    using or_default_keeps [OF k0, of "''authUser''"] by auto
  obtain a2 where s2: "or_default ''authPass'' AUTH_PASS (JObj a1) = Inr (JObj a2)"
      and k2: "keeps_tags a a2"
    using or_default_keeps [OF k1, of "''authPass''"] by auto
  obtain a3 where s3: "or_default ''controlPlaneUri'' CONTROLPLANE_URI (JObj a2) = Inr (JObj a3)"
      and k3: "keeps_tags a a3"
    using or_default_keeps [OF k2, of "''controlPlaneUri''"] by auto
  obtain a4 where s4: "or_default ''controlPlanePort'' CONTROLPLANE_PORT (JObj a3) = Inr (JObj a4)"
      and k4: "keeps_tags a a4"
    using or_default_keeps [OF k3, of "''controlPlanePort''"] by auto
  obtain a5 where s5: "or_default ''controlPlaneSubProtocol'' CONTROLPLANE_SUBPROTOCOL (JObj a4)
                         = Inr (JObj a5)"
      and k5: "keeps_tags a a5"
    using or_default_keeps [OF k4, of "''controlPlaneSubProtocol''"] by auto
  obtain a6 where s6: "or_default ''controlPlaneOrigin'' CONTROLPLANE_ORIGIN (JObj a5)
                         = Inr (JObj a6)"
      and k6: "keeps_tags a a6"
    using or_default_keeps [OF k5, of "''controlPlaneOrigin''"] by auto
  obtain a7 where s7: "own_or_default ''autoReconnect'' AUTO_RECONNECT (JObj a6) = Inr (JObj a7)"
      and k7: "keeps_tags a a7"
    using own_or_default_keeps [OF k6, of "''autoReconnect''"] by auto
  obtain a8 where s8: "or_default ''reconnectionTimer'' RECONNECTION_TIMER (JObj a7)
                         = Inr (JObj a8)"
      and k8: "keeps_tags a a8"
    using or_default_keeps [OF k7, of "''reconnectionTimer''"] by auto
  obtain a9 where s9: "own_or_default ''secureWebSocket'' SECURE_WEBSOCKET (JObj a8)
                         = Inr (JObj a9)"
      and k9: "keeps_tags a a9"
    using own_or_default_keeps [OF k8, of "''secureWebSocket''"] by auto
  obtain b where s10: "own_or_default ''emitEventsAsCP'' EMIT_EVENTS_AS_CP (JObj a9)
                         = Inr (JObj b)"
      and k10: "keeps_tags a b"
    using own_or_default_keeps [OF k9, of "''emitEventsAsCP''"] by auto
  have "apply_defaults (JObj a) = Inr (JObj b)"
    by (simp add: apply_defaults_def bind_e_def s1 s2 s3 s4 s5 s6 s7 s8 s9 s10)
  with k10 show ?thesis
    by (simp add: keeps_tags_def)
qed

text \<open>Lines 58--66 on a plain object that inherits its \<^verbatim>\<open>hasOwnProperty\<close>.\<close>

lemma normalize_accepts_object:
  assumes "\<not> obj_has kvs ''hasOwnProperty''"
  shows "\<exists>a. normalize_accepts (JObj kvs) = Inr (JObj a) \<and> \<not> obj_has a ''hasOwnProperty'' \<and>
           (\<not> obj_has kvs ''accepts'' \<longrightarrow>
              obj_get a ''acceptTags'' = JArr [obj_get kvs ''appletId'']) \<and>
           (\<forall>s. obj_get kvs ''accepts'' = JStr s \<longrightarrow> obj_get a ''acceptTags'' = JArr [JStr s]) \<and>
           (\<forall>xs. obj_get kvs ''accepts'' = JArr xs \<longrightarrow> obj_get a ''acceptTags'' = JArr xs)"
proof (cases "obj_has kvs ''accepts''")
  case False
  then have "obj_get kvs ''accepts'' = JUndefined"
    by (simp add: obj_get_def obj_has_map_of)
  with False assms show ?thesis
    by (simp add: normalize_accepts_def bind_e_def obj_get_update obj_has_update)
next
  case True
  with assms show ?thesis
    by (cases "obj_get kvs ''accepts''")
       (simp_all add: normalize_accepts_def bind_e_def is_array_def is_string_def
          obj_get_update obj_has_update)
qed

text \<open>Lines 49--57, when the constructor gets past line 58: the argument was a string or a
  plain object that inherits its \<^verbatim>\<open>hasOwnProperty\<close>.\<close>

lemma initial_options_result:
  assumes "initial_options options = Inr o0" and "has_own o0 k = Inr b"
  shows "(\<exists>s. options = JStr s \<and> o0 = JObj [(''appletId'', JStr s)]) \<or>
         (\<exists>kvs. options = JObj kvs \<and> o0 = options \<and> \<not> obj_has kvs ''hasOwnProperty'')"
  using assms
  by (cases options) (auto simp add: initial_options_def bind_e_def split: if_splits)

text \<open>
  C8, as the code has it. After a construction that succeeds, \<^verbatim>\<open>acceptTags\<close> is
  \<^item> \<^verbatim>\<open>[appletId]\<close> when the argument is a bare string or an object without an
    \<^verbatim>\<open>accepts\<close> key,
  \<^item> \<^verbatim>\<open>[s]\<close> when \<^verbatim>\<open>accepts\<close> is the string \<^verbatim>\<open>s\<close>,
  \<^item> the supplied array itself when \<^verbatim>\<open>accepts\<close> is an array.
  So a string \<^verbatim>\<open>s\<close> and the array \<^verbatim>\<open>[s]\<close> give the same \<^verbatim>\<open>acceptTags\<close>, and
  \<^verbatim>\<open>acceptTags\<close> is non-empty in the first two cases and exactly as long as the supplied
  array in the third.
\<close>

theorem acceptTags_normalisation:
  assumes "IoTransit_new options = Inr w"
  shows "(options = JStr s \<longrightarrow>
            get w (this_get w ''options'') ''acceptTags'' = Inr (JArr [JStr s]))
       \<and> (options = JObj kvs \<and> \<not> obj_has kvs ''accepts'' \<longrightarrow>
            get w (this_get w ''options'') ''acceptTags'' = Inr (JArr [obj_get kvs ''appletId'']))
       \<and> (options = JObj kvs \<and> obj_get kvs ''accepts'' = JStr s \<longrightarrow>
            get w (this_get w ''options'') ''acceptTags'' = Inr (JArr [JStr s]))
       \<and> (options = JObj kvs \<and> obj_get kvs ''accepts'' = JArr xs \<longrightarrow>
            get w (this_get w ''options'') ''acceptTags'' = Inr (JArr xs))"
proof -
  from assms obtain o0 o1 opts where
    init: "initial_options options = Inr o0" and
    norm: "normalize_accepts o0 = Inr o1" and
    dflt: "apply_defaults o1 = Inr opts" and
    w: "w = fresh_client opts"
    by (auto simp add: IoTransit_new_def bind_e_def split: sum.splits)
  from norm obtain b where "has_own o0 ''accepts'' = Inr b"
    by (auto simp add: normalize_accepts_def bind_e_def split: sum.splits)
  from initial_options_result [OF init this] obtain kvs0 where
    o0: "o0 = JObj kvs0" and clean: "\<not> obj_has kvs0 ''hasOwnProperty''" and
    shape: "(\<exists>s. options = JStr s \<and> kvs0 = [(''appletId'', JStr s)]) \<or> options = JObj kvs0"
    by (auto simp add: obj_has_def)
  from normalize_accepts_object [OF clean] norm o0 obtain a where
    o1: "o1 = JObj a" and clean1: "\<not> obj_has a ''hasOwnProperty''" and
    none: "\<not> obj_has kvs0 ''accepts'' \<longrightarrow>
             obj_get a ''acceptTags'' = JArr [obj_get kvs0 ''appletId'']" and
    str: "\<forall>s. obj_get kvs0 ''accepts'' = JStr s \<longrightarrow> obj_get a ''acceptTags'' = JArr [JStr s]" and
    arr: "\<forall>xs. obj_get kvs0 ''accepts'' = JArr xs \<longrightarrow> obj_get a ''acceptTags'' = JArr xs"
    by auto
  from apply_defaults_keeps [OF clean1] dflt o1 obtain c where
    opts: "opts = JObj c" and same: "obj_get c ''acceptTags'' = obj_get a ''acceptTags''"
    by auto
  have read: "get w (this_get w ''options'') ''acceptTags'' = Inr (obj_get a ''acceptTags'')"
    by (simp add: w opts same this_get_def fresh_client_def)
  from shape show ?thesis
  proof
    assume "\<exists>s. options = JStr s \<and> kvs0 = [(''appletId'', JStr s)]"
    then obtain s' where "options = JStr s'" and "kvs0 = [(''appletId'', JStr s')]"
      by blast
    with none show ?thesis
      by (simp add: read obj_has_def obj_get_def)
  next
    assume "options = JObj kvs0"
    with none str arr show ?thesis
      by (auto simp add: read)
  qed
qed

theorem acceptTags_normalisation_witness:
  "get new_client (this_get new_client ''options'') ''acceptTags'' = Inr (JArr [JStr ''A''])"
  using acceptTags_normalisation [OF new_client_constructed, of "''A''"] by simp

text \<open>\<^verbatim>\<open>new IoTransit({appletId: 'A', accepts: []})\<close> succeeds, and its \<^verbatim>\<open>acceptTags\<close> is
  the empty array.\<close>

theorem empty_accepts_counterexample:
  "IoTransit_new (JObj [(''appletId'', JStr ''A''), (''accepts'', JArr [])]) =
     Inr (fresh_client empty_tags_options)
   \<and> get (fresh_client empty_tags_options)
         (this_get (fresh_client empty_tags_options) ''options'') ''acceptTags'' = Inr (JArr [])"
  by (simp add: constructor_defs empty_tags_options_def this_get_def)

text \<open>
  C9 at an input where the code departs from it:
  \<^verbatim>\<open>new IoTransit({appletId: 'A', reconnectionTimer: 0})\<close>. The supplied delay \<^verbatim>\<open>0\<close> is
  falsy, so \<^verbatim>\<open>this.options.reconnectionTimer || RECONNECTION_TIMER\<close> puts the built-in
  5000 in its place.
\<close>

theorem zero_delay_replaced_by_default:
  "IoTransit_new (JObj [(''appletId'', JStr ''A''), (''reconnectionTimer'', JNum 0)]) =
     Inr (fresh_client zero_delay_options)
   \<and> get (fresh_client zero_delay_options)
         (this_get (fresh_client zero_delay_options) ''options'') ''reconnectionTimer''
       = Inr (JNum 5000)"
  by (simp add: constructor_defs zero_delay_options_def this_get_def)

end
